theory Spec2Isabelle
  imports Main "HOL-Library.Word" "HOL-Library.List_Lexorder"
begin

unbundle bit_operations_syntax

section \<open>Ledger primitives\<close>

type_synonym byte = "8 word"
type_synonym uint32 = "32 word"
type_synonym uint64 = "64 word"

text \<open>
  \<^verbatim>\<open>ledger.LogicalTime\<close> is a slot (uint32) and a tick (byte). The type itself is
  declared in the ledger package; the attacher and the tip pool only use its accessors,
  its zero value and its order.
\<close>

record logical_time =
  lt_slot :: uint32
  lt_tick :: byte

definition NilLogicalTime :: logical_time where
  "NilLogicalTime = \<lparr>lt_slot = 0, lt_tick = 0\<rparr>"

text \<open>
  Modelled from the spec: the order of \<^verbatim>\<open>LogicalTime\<close> values (methods
  \<^verbatim>\<open>Before\<close> and \<^verbatim>\<open>After\<close> of the ledger package) is slot-major and
  tick-minor.
\<close>

definition Before :: "logical_time \<Rightarrow> logical_time \<Rightarrow> bool" where
  "Before t t1 = (lt_slot t < lt_slot t1 \<or> (lt_slot t = lt_slot t1 \<and> lt_tick t < lt_tick t1))"

definition After :: "logical_time \<Rightarrow> logical_time \<Rightarrow> bool" where
  "After t t1 = Before t1 t"

text \<open>
  Modelled from the spec: \<^verbatim>\<open>ledger.MustNewLogicalTime\<close> builds the pair of a slot
  and a tick.
\<close>

definition MustNewLogicalTime :: "uint32 \<Rightarrow> byte \<Rightarrow> logical_time" where
  "MustNewLogicalTime e s = \<lparr>lt_slot = e, lt_tick = s\<rparr>"

text \<open>
  \<^verbatim>\<open>ledger.TransactionID\<close>: the timestamp, the sequencer-milestone and branch flags
  and the truncated hash of the transaction bytes.
\<close>

record transaction_id =
  txid_timestamp :: logical_time
  txid_sequencer_flag :: bool
  txid_branch_flag :: bool
  txid_hash :: "byte list"

text \<open>
  Modelled from the spec: the byte image of a \<^verbatim>\<open>TransactionID\<close> (the array that
  \<^verbatim>\<open>vid.ID[:]\<close> slices) is the 5-byte timestamp, slot first in big-endian order and
  then the tick, with the two high bits of the first byte carrying the flags
  (0x80 sequencer milestone, 0x40 branch), followed by the hash.
\<close>

definition TransactionID_bytes :: "transaction_id \<Rightarrow> byte list" where
  "TransactionID_bytes i =
     (let s = lt_slot (txid_timestamp i);
          f = (if txid_sequencer_flag i then 0x80 else 0) OR (if txid_branch_flag i then 0x40 else 0)
      in [ucast (drop_bit 24 s) OR f, ucast (drop_bit 16 s), ucast (drop_bit 8 s), ucast s,
          lt_tick (txid_timestamp i)] @ txid_hash i)"

definition txid_IsSequencerMilestone :: "transaction_id \<Rightarrow> bool" where
  "txid_IsSequencerMilestone i = txid_sequencer_flag i"

definition txid_IsBranchTransaction :: "transaction_id \<Rightarrow> bool" where
  "txid_IsBranchTransaction i = (txid_sequencer_flag i \<and> txid_branch_flag i)"

record output_id =
  oid_txid :: transaction_id
  oid_index :: byte

definition NewOutputID :: "transaction_id \<Rightarrow> byte \<Rightarrow> output_id" where
  "NewOutputID i idx = \<lparr>oid_txid = i, oid_index = idx\<rparr>"

text \<open>
  \<^verbatim>\<open>ledger.Output\<close>, as far as the code under study reads it: the amount and the
  index of the chain constraint (0xff when the output has none).
\<close>

record ledger_output =
  out_amount :: uint64
  out_chain_constraint_index :: byte

type_synonym chain_id = "byte list"

text \<open>Go's \<^verbatim>\<open>bytes.Compare\<close>: -1, 0 or 1 by lexicographic comparison.\<close>

fun bytes_Compare :: "byte list \<Rightarrow> byte list \<Rightarrow> int" where
  "bytes_Compare [] [] = 0"
| "bytes_Compare [] (y # ys) = -1"
| "bytes_Compare (x # xs) [] = 1"
| "bytes_Compare (x # xs) (y # ys) =
     (if x < y then -1 else if y < x then 1 else bytes_Compare xs ys)"

text \<open>Go's \<^verbatim>\<open>binary.BigEndian.Uint64\<close> on the bytes it is given.\<close>

definition BigEndian_Uint64 :: "byte list \<Rightarrow> uint64" where
  "BigEndian_Uint64 bs = foldl (\<lambda>acc b. push_bit 8 acc OR ucast b) 0 bs"

section \<open>Transactions: \<^verbatim>\<open>ledger/transaction/tx.go\<close>\<close>

text \<open>
  The top-level indices of the transaction data tree. A path is a top-level index
  followed by the indices below it: \<^verbatim>\<open>Path(ledger.TxOutputs)\<close> is
  \<open>(TxOutputs, [])\<close> and \<^verbatim>\<open>[]byte{ledger.TxOutputs, i}\<close> is \<open>(TxOutputs, [i])\<close>.
\<close>

datatype tx_index =
  TxInputIDs | TxUnlockParams | TxOutputs | TxTimestamp | TxSequencerAndStemOutputIndices
  | TxTotalProducedAmount | TxInputCommitment | TxEndorsements | TxSignature

type_synonym path = "tx_index \<times> byte list"

definition Path :: "tx_index \<Rightarrow> path" where
  "Path c = (c, [])"

text \<open>
  \<^verbatim>\<open>lazybytes.Tree\<close>: the bytes it was read from, the bytes at a path and the number
  of elements at a path. Both accessors panic on a path the data does not have: that is
  the value \<open>None\<close>.
\<close>

record tree =
  tree_Bytes :: "byte list"
  BytesAtPath :: "path \<Rightarrow> byte list option"
  NumElements :: "path \<Rightarrow> nat option"

text \<open>
  The functions of the ledger package and of lazybytes that the transaction code calls
  and whose code is not part of the sources under study. They are parameters of the
  model: every theorem below holds for all of them.
\<close>

record ledger_lib =
  TreeFromBytesReadOnly :: "byte list \<Rightarrow> tree"
  LogicalTimeFromBytes :: "byte list \<Rightarrow> string + logical_time"
  HashTransactionBytes :: "byte list \<Rightarrow> byte list"
  OutputFromBytesMain :: "byte list \<Rightarrow> string + (ledger_output \<times> uint64)"
  OutputFromBytesReadOnly :: "byte list \<Rightarrow> string + ledger_output"
  OutputIDFromBytes :: "byte list \<Rightarrow> string + output_id"
  MustOutputIndexFromIDBytes :: "byte list \<Rightarrow> byte option"

datatype tx_error =
  ErrPanic
  | ErrWrongSeqStemIndices
  | ErrWrongBranchFlag
  | ErrTimestamp string
  | ErrSlotBoundaryNotBranch
  | ErrWrongTotalAmountBytes
  | ErrScanningOutput nat string
  | ErrArithmeticOverflow nat
  | ErrWrongTotalProducedAmount
  | ErrBasicParseFailed tx_error
  | ErrValidationFailed tx_error
  | ErrOther string

record seq_tx_data =
  SequencerID :: chain_id
  SequencerOutputIndex :: byte
  StemOutputIndex :: byte

record transaction =
  tx_tree :: tree
  txHash :: "byte list"
  sequencerMilestoneFlag :: bool
  branchTransactionFlag :: bool
  timestamp :: logical_time
  totalAmount :: uint64
  sequencerTransactionData :: "seq_tx_data option"
  byteSize :: nat

type_synonym TxValidationOption = "transaction \<Rightarrow> tx_error + transaction"

text \<open>
  \<^verbatim>\<open>Validate\<close> runs the options in order and stops at the first error. A panic of
  an option is caught (\<^verbatim>\<open>util.CatchPanicOrError\<close>) and returned as an error, which
  is how the options below report it.
\<close>

fun Validate :: "TxValidationOption list \<Rightarrow> transaction \<Rightarrow> tx_error + transaction" where
  "Validate [] tx = Inr tx"
| "Validate (f # fs) tx = (case f tx of Inl e \<Rightarrow> Inl e | Inr tx' \<Rightarrow> Validate fs tx')"

definition BaseValidation :: "ledger_lib \<Rightarrow> TxValidationOption" where
  "BaseValidation L tx =
     (case BytesAtPath (tx_tree tx) (Path TxTimestamp) of
        None \<Rightarrow> Inl ErrPanic
      | Some tsBin \<Rightarrow>
     (case BytesAtPath (tx_tree tx) (Path TxSequencerAndStemOutputIndices) of
        None \<Rightarrow> Inl ErrPanic
      | Some outputIndexData \<Rightarrow>
        if length outputIndexData \<noteq> 2 then Inl ErrWrongSeqStemIndices
        else
          let tx1 = tx\<lparr>sequencerMilestoneFlag := (outputIndexData ! 0 \<noteq> 0xff),
                        branchTransactionFlag := (outputIndexData ! 1 \<noteq> 0xff)\<rparr>
          in
          if branchTransactionFlag tx1 \<and> \<not> sequencerMilestoneFlag tx1 then Inl ErrWrongBranchFlag
          else
            (case LogicalTimeFromBytes L tsBin of
               Inl e \<Rightarrow> Inl (ErrTimestamp e)
             | Inr ts \<Rightarrow>
                 let tx2 = tx1\<lparr>timestamp := ts\<rparr> in
                 if lt_tick (timestamp tx2) = 0 \<and> sequencerMilestoneFlag tx2
                    \<and> \<not> branchTransactionFlag tx2
                 then Inl ErrSlotBoundaryNotBranch
                 else
                   (case BytesAtPath (tx_tree tx) (Path TxTotalProducedAmount) of
                      None \<Rightarrow> Inl ErrPanic
                    | Some totalAmountBin \<Rightarrow>
                        if length totalAmountBin \<noteq> 8 then Inl ErrWrongTotalAmountBytes
                        else Inr (tx2\<lparr>totalAmount := BigEndian_Uint64 totalAmountBin,
                                      txHash := HashTransactionBytes L (tree_Bytes (tx_tree tx))\<rparr>)))))"

definition transactionFromBytes ::
  "ledger_lib \<Rightarrow> byte list \<Rightarrow> TxValidationOption list \<Rightarrow> tx_error + transaction" where
  "transactionFromBytes L txBytes opt =
     Validate opt
       \<lparr>tx_tree = TreeFromBytesReadOnly L txBytes, txHash = [],
        sequencerMilestoneFlag = False, branchTransactionFlag = False,
        timestamp = NilLogicalTime, totalAmount = 0, sequencerTransactionData = None,
        byteSize = length txBytes\<rparr>"

definition FromBytes ::
  "ledger_lib \<Rightarrow> byte list \<Rightarrow> TxValidationOption list \<Rightarrow> tx_error + transaction" where
  "FromBytes L txBytes opt =
     (case transactionFromBytes L txBytes [BaseValidation L] of
        Inl err \<Rightarrow> Inl (ErrBasicParseFailed err)
      | Inr ret \<Rightarrow>
          (case Validate opt ret of
             Inl err \<Rightarrow> Inl (ErrValidationFailed err)
           | Inr ret' \<Rightarrow> Inr ret'))"

text \<open>
  The loop of \<^verbatim>\<open>ScanOutputs\<close>: \<open>i\<close> is the loop index, \<open>k\<close> the number of
  iterations left and \<open>tot\<close> the running \<^verbatim>\<open>totalAmount\<close>. The path element is
  \<^verbatim>\<open>byte(i)\<close>, the index truncated to a byte.
\<close>

fun scanOutputsLoop :: "ledger_lib \<Rightarrow> tree \<Rightarrow> nat \<Rightarrow> nat \<Rightarrow> uint64 \<Rightarrow> tx_error + uint64" where
  "scanOutputsLoop L t i 0 tot = Inr tot"
| "scanOutputsLoop L t i (Suc k) tot =
     (case BytesAtPath t (TxOutputs, [of_nat i]) of
        None \<Rightarrow> Inl ErrPanic
      | Some data \<Rightarrow>
          (case OutputFromBytesMain L data of
             Inl err \<Rightarrow> Inl (ErrScanningOutput i err)
           | Inr (out, amount) \<Rightarrow>
               if amount > (- 1) - tot then Inl (ErrArithmeticOverflow i)
               else scanOutputsLoop L t (Suc i) k (tot + amount)))"

definition ScanOutputs :: "ledger_lib \<Rightarrow> TxValidationOption" where
  "ScanOutputs L tx =
     (case NumElements (tx_tree tx) (Path TxOutputs) of
        None \<Rightarrow> Inl ErrPanic
      | Some numOutputs \<Rightarrow>
          (case scanOutputsLoop L (tx_tree tx) 0 numOutputs 0 of
             Inl err \<Rightarrow> Inl err
           | Inr tot \<Rightarrow>
               if totalAmount tx \<noteq> tot then Inl ErrWrongTotalProducedAmount else Inr tx))"

definition IsSequencerMilestone :: "transaction \<Rightarrow> bool" where
  "IsSequencerMilestone tx = sequencerMilestoneFlag tx"

definition IsBranchTransaction :: "transaction \<Rightarrow> bool" where
  "IsBranchTransaction tx = (sequencerMilestoneFlag tx \<and> branchTransactionFlag tx)"

definition tx_ID :: "transaction \<Rightarrow> transaction_id" where
  "tx_ID tx = \<lparr>txid_timestamp = timestamp tx, txid_sequencer_flag = sequencerMilestoneFlag tx,
              txid_branch_flag = branchTransactionFlag tx, txid_hash = txHash tx\<rparr>"

definition NumProducedOutputs :: "transaction \<Rightarrow> nat option" where
  "NumProducedOutputs tx = NumElements (tx_tree tx) (Path TxOutputs)"

definition NumInputs :: "transaction \<Rightarrow> nat option" where
  "NumInputs tx = NumElements (tx_tree tx) (Path TxInputIDs)"

definition MustOutputDataAt :: "transaction \<Rightarrow> byte \<Rightarrow> byte list option" where
  "MustOutputDataAt tx idx = BytesAtPath (tx_tree tx) (TxOutputs, [idx])"

text \<open>
  \<^verbatim>\<open>ProducedOutputAt\<close> returns an output or an error; \<open>None\<close> is a panic of the
  tree accessors.
\<close>

definition ProducedOutputAt :: "ledger_lib \<Rightarrow> transaction \<Rightarrow> byte \<Rightarrow> (string + ledger_output) option" where
  "ProducedOutputAt L tx idx =
     (case NumProducedOutputs tx of
        None \<Rightarrow> None
      | Some n \<Rightarrow>
          if unat idx \<ge> n then Some (Inl ''wrong output index'')
          else (case MustOutputDataAt tx idx of
                  None \<Rightarrow> None
                | Some data \<Rightarrow> Some (OutputFromBytesReadOnly L data)))"

definition InputAt :: "ledger_lib \<Rightarrow> transaction \<Rightarrow> byte \<Rightarrow> (string + output_id) option" where
  "InputAt L tx idx =
     (case NumInputs tx of
        None \<Rightarrow> None
      | Some n \<Rightarrow>
          if unat idx \<ge> n then Some (Inl ''InputAt: wrong input index'')
          else (case BytesAtPath (tx_tree tx) (TxInputIDs, [idx]) of
                  None \<Rightarrow> None
                | Some data \<Rightarrow> Some (OutputIDFromBytes L data)))"

text \<open>\<^verbatim>\<open>MustInputAt\<close> asserts that \<^verbatim>\<open>InputAt\<close> gave no error.\<close>

definition MustInputAt :: "ledger_lib \<Rightarrow> transaction \<Rightarrow> byte \<Rightarrow> output_id option" where
  "MustInputAt L tx idx =
     (case InputAt L tx idx of
        Some (Inr ret) \<Rightarrow> Some ret
      | _ \<Rightarrow> None)"

definition MustOutputIndexOfTheInput :: "ledger_lib \<Rightarrow> transaction \<Rightarrow> byte \<Rightarrow> byte option" where
  "MustOutputIndexOfTheInput L tx inputIdx =
     (case BytesAtPath (tx_tree tx) (TxInputIDs, [inputIdx]) of
        None \<Rightarrow> None
      | Some data \<Rightarrow> MustOutputIndexFromIDBytes L data)"

section \<open>Wrapped transactions: package \<^verbatim>\<open>vertex\<close>\<close>

text \<open>
  A \<^verbatim>\<open>*vertex.WrappedTx\<close> is a pointer: two of them are the same vertex when the
  pointers are equal. Pointers are addresses into a heap of wrapped transactions, and
  a pointer that may be \<^verbatim>\<open>nil\<close> is a \<open>vid option\<close>.
\<close>

type_synonym vid = nat

datatype status = Undefined | Good | Bad

datatype attach_error =
  ErrDoubleSpend output_id vid vid
  | ErrBranchesNotCompatible vid vid
  | ErrParasiticChain logical_time vid byte
  | ErrConsumedInBaseline vid byte vid
  | ErrReason string

record vertex =
  Tx :: transaction
  Inputs :: "vid option list"
  Endorsements :: "vid option list"
  BaselineBranch :: "vid option"

text \<open>
  A virtual transaction knows some outputs by index. Its sequencer id, which the
  source derives from the sequencer output when that is known, is kept as a field.
\<close>

record virtual_tx =
  vt_outputs :: "byte \<Rightarrow> ledger_output option"
  vt_sequencerID :: "chain_id option"

datatype generic_wrapper = WVertex vertex | WVirtualTx virtual_tx | WDeleted

text \<open>
  The fields of a wrapped transaction that the code under study reads or writes.
  \<open>consumers\<close> maps an output index to the set of consumers, kept as the list of its
  members in the order an iteration visits them. \<open>coverage_sum\<close> is the value of
  \<^verbatim>\<open>GetLedgerCoverage().Sum()\<close>.
\<close>

record wrapped_tx =
  ID :: transaction_id
  txStatus :: status
  vid_reason :: "attach_error option"
  wrapper :: generic_wrapper
  consumers :: "byte \<Rightarrow> vid list"
  coverage_sum :: uint64

type_synonym heap = "vid \<Rightarrow> wrapped_tx"

record wrapped_output =
  wo_VID :: vid
  wo_Index :: byte

definition vid_IsBranchTransaction :: "heap \<Rightarrow> vid \<Rightarrow> bool" where
  "vid_IsBranchTransaction h v = txid_IsBranchTransaction (ID (h v))"

definition vid_IsSequencerMilestone :: "heap \<Rightarrow> vid \<Rightarrow> bool" where
  "vid_IsSequencerMilestone h v = txid_IsSequencerMilestone (ID (h v))"

definition vid_Timestamp :: "heap \<Rightarrow> vid \<Rightarrow> logical_time" where
  "vid_Timestamp h v = txid_timestamp (ID (h v))"

definition vid_Slot :: "heap \<Rightarrow> vid \<Rightarrow> uint32" where
  "vid_Slot h v = lt_slot (txid_timestamp (ID (h v)))"

definition GetTxStatus :: "heap \<Rightarrow> vid \<Rightarrow> status" where
  "GetTxStatus h v = txStatus (h v)"

definition GetReason :: "heap \<Rightarrow> vid \<Rightarrow> attach_error option" where
  "GetReason h v = vid_reason (h v)"

definition wo_Timestamp :: "heap \<Rightarrow> wrapped_output \<Rightarrow> logical_time" where
  "wo_Timestamp h wOut = vid_Timestamp h (wo_VID wOut)"

definition DecodeID :: "heap \<Rightarrow> wrapped_output \<Rightarrow> output_id" where
  "DecodeID h wOut = NewOutputID (ID (h (wo_VID wOut))) (wo_Index wOut)"

text \<open>
  Modelled from the spec: \<^verbatim>\<open>IsBadOrDeleted\<close> (its code is not among the sources)
  holds of a vertex whose status is Bad or whose payload is the Deleted tombstone.
\<close>

definition IsBadOrDeleted :: "heap \<Rightarrow> vid \<Rightarrow> bool" where
  "IsBadOrDeleted h v = (txStatus (h v) = Bad \<or> wrapper (h v) = WDeleted)"

text \<open>
  \<^verbatim>\<open>OutputAt\<close>: an error for a wrong index, no output and no error when a virtual
  transaction does not know the output, a panic (\<open>None\<close>) on a deleted vertex.
\<close>

definition OutputAt ::
  "ledger_lib \<Rightarrow> heap \<Rightarrow> vid \<Rightarrow> byte \<Rightarrow> (string + ledger_output option) option" where
  "OutputAt L h v idx =
     (case wrapper (h v) of
        WVertex vx \<Rightarrow>
          (case ProducedOutputAt L (Tx vx) idx of
             None \<Rightarrow> None
           | Some (Inl err) \<Rightarrow> Some (Inl err)
           | Some (Inr out) \<Rightarrow> Some (Inr (Some out)))
      | WVirtualTx vt \<Rightarrow> Some (Inr (vt_outputs vt idx))
      | WDeleted \<Rightarrow> None)"

text \<open>\<^verbatim>\<open>BaselineBranch\<close>: a panic (\<open>None\<close>) on a deleted vertex.\<close>

definition vid_BaselineBranch :: "heap \<Rightarrow> vid \<Rightarrow> vid option option" where
  "vid_BaselineBranch h v =
     (case wrapper (h v) of
        WVertex vx \<Rightarrow> Some (BaselineBranch vx)
      | WVirtualTx vt \<Rightarrow>
          Some (if txid_IsBranchTransaction (ID (h v)) \<and> txStatus (h v) = Good then Some v else None)
      | WDeleted \<Rightarrow> None)"

text \<open>
  \<^verbatim>\<open>SequencerIDIfAvailable\<close>: \<open>Some None\<close> when the id is not available, \<open>None\<close>
  when the source dereferences the missing sequencer data of a sequencer milestone.
\<close>

definition SequencerIDIfAvailable :: "heap \<Rightarrow> vid \<Rightarrow> chain_id option option" where
  "SequencerIDIfAvailable h v =
     (case wrapper (h v) of
        WVertex vx \<Rightarrow>
          if IsSequencerMilestone (Tx vx)
          then (case sequencerTransactionData (Tx vx) of
                  None \<Rightarrow> None
                | Some d \<Rightarrow> Some (Some (SequencerID d)))
          else Some None
      | WVirtualTx vt \<Rightarrow> Some (vt_sequencerID vt)
      | WDeleted \<Rightarrow> Some None)"

text \<open>
  Modelled from the spec: \<^verbatim>\<open>AttachConsumer\<close> (its code is not among the sources)
  inserts the consumer into the consumers of the output index if and only if the
  conflict check rejects none of the existing consumers, and returns whether it did.
\<close>

definition AttachConsumer ::
  "wrapped_tx \<Rightarrow> byte \<Rightarrow> vid \<Rightarrow> (vid list \<Rightarrow> bool) \<Rightarrow> bool \<times> wrapped_tx" where
  "AttachConsumer w outputIndex consumer checkConflicts =
     (let existingConsumers = consumers w outputIndex in
      if checkConflicts existingConsumers then (False, w)
      else (True, w\<lparr>consumers := (consumers w)(outputIndex := List.insert consumer existingConsumers)\<rparr>))"

text \<open>
  Modelled from the spec: \<^verbatim>\<open>EnsureOutput\<close> (its code is not among the sources)
  populates the output slot of a virtual transaction on first discovery; a full vertex
  has the output when the index is one of its produced outputs; a deleted vertex
  cannot be accessed (\<open>None\<close>).
\<close>

definition EnsureOutput ::
  "heap \<Rightarrow> vid \<Rightarrow> byte \<Rightarrow> ledger_output \<Rightarrow> (bool \<times> heap) option" where
  "EnsureOutput h v idx out =
     (case wrapper (h v) of
        WVertex vx \<Rightarrow>
          (case NumProducedOutputs (Tx vx) of
             None \<Rightarrow> None
           | Some n \<Rightarrow> Some (unat idx < n, h))
      | WVirtualTx vt \<Rightarrow>
          Some (True,
            if vt_outputs vt idx = None
            then h(v := (h v)\<lparr>wrapper := WVirtualTx (vt\<lparr>vt_outputs := (vt_outputs vt)(idx := Some out)\<rparr>)\<rparr>)
            else h)
      | WDeleted \<Rightarrow> None)"

section \<open>The past-cone attacher: \<^verbatim>\<open>core/attacher\<close>\<close>

record state_reader =
  KnowsCommittedTransaction :: "transaction_id \<Rightarrow> bool"
  GetOutput :: "output_id \<Rightarrow> ledger_output option"

text \<open>
  What the attacher takes from its environment and from packages whose code is not
  among the sources: the ledger library, the descendant relation of branches in the
  state store, the state reader of a branch, the registry operation
  \<^verbatim>\<open>AttachTxID\<close> and the constant \<^verbatim>\<open>maxToleratedParasiticChainSlots\<close>.
\<close>

record environment =
  ledgerLib :: ledger_lib
  BranchIsDescendantOf :: "transaction_id \<Rightarrow> transaction_id \<Rightarrow> bool"
  GetStateReaderForTheBranch :: "vid \<Rightarrow> state_reader"
  AttachTxID :: "transaction_id \<Rightarrow> heap \<Rightarrow> vid \<times> heap"
  maxToleratedParasiticChainSlots :: uint32

text \<open>
  The attacher's maps and sets: \<open>rooted\<close> maps a vertex to its set of rooted output
  indices (the empty set for a vertex that is not a key).
\<close>

record attacher =
  a_name :: string
  rooted :: "vid \<Rightarrow> byte set"
  validPastVertices :: "vid set"
  undefinedPastVertices :: "vid set"
  baselineBranch :: "vid option"
  coverageDelta :: uint64
  reason :: "attach_error option"

text \<open>
  The shared state an attacher works on: the heap of wrapped transactions, the pull
  requests sent (\<^verbatim>\<open>a.Pull\<close>) and the pokes asked for (\<^verbatim>\<open>a.pokeMe\<close>).
\<close>

record world =
  heap :: heap
  pulled :: "transaction_id list"
  poked :: "vid list"

definition newPastConeAttacher :: "string \<Rightarrow> attacher" where
  "newPastConeAttacher nm =
     \<lparr>a_name = nm, rooted = (\<lambda>_. {}), validPastVertices = {}, undefinedPastVertices = {},
      baselineBranch = None, coverageDelta = 0, reason = None\<rparr>"

definition setReason :: "attacher \<Rightarrow> attach_error option \<Rightarrow> attacher" where
  "setReason a err = a\<lparr>reason := err\<rparr>"

definition baselineStateReader :: "environment \<Rightarrow> vid \<Rightarrow> state_reader" where
  "baselineStateReader E bb = GetStateReaderForTheBranch E bb"

text \<open>\<^verbatim>\<open>isKnownVertex\<close>: \<open>None\<close> when one of its assertions fails.\<close>

definition isKnownVertex :: "attacher \<Rightarrow> vid \<Rightarrow> bool option" where
  "isKnownVertex a v =
     (if v \<in> validPastVertices a then
        (if v \<in> undefinedPastVertices a then None else Some True)
      else if v \<in> undefinedPastVertices a then Some True
      else Some False)"

definition isRooted :: "attacher \<Rightarrow> vid \<Rightarrow> bool" where
  "isRooted a v = (rooted a v \<noteq> {})"

text \<open>
  \<^verbatim>\<open>branchesCompatible\<close>: \<open>None\<close> when an assertion fails (a nil pointer, or a
  vertex that is not a branch).
\<close>

definition branchesCompatible :: "environment \<Rightarrow> heap \<Rightarrow> vid option \<Rightarrow> vid option \<Rightarrow> bool option" where
  "branchesCompatible E h p1 p2 =
     (case (p1, p2) of
        (Some vid1, Some vid2) \<Rightarrow>
          if \<not> (vid_IsBranchTransaction h vid1 \<and> vid_IsBranchTransaction h vid2) then None
          else if vid1 = vid2 then Some True
          else if vid_Slot h vid1 = vid_Slot h vid2 then Some False
          else if vid_Slot h vid1 < vid_Slot h vid2
            then Some (BranchIsDescendantOf E (ID (h vid2)) (ID (h vid1)))
          else Some (BranchIsDescendantOf E (ID (h vid1)) (ID (h vid2)))
      | _ \<Rightarrow> None)"

text \<open>
  The closure of \<^verbatim>\<open>checkConflictsFunc\<close>: \<^verbatim>\<open>ForEach\<close> visits the existing
  consumers until the callback returns false.
\<close>

fun checkConflictsFunc :: "attacher \<Rightarrow> vid \<Rightarrow> vid list \<Rightarrow> bool" where
  "checkConflictsFunc a consumerTx [] = False"
| "checkConflictsFunc a consumerTx (existingConsumer # rest) =
     (if existingConsumer = consumerTx then checkConflictsFunc a consumerTx rest
      else if existingConsumer \<in> validPastVertices a then True
      else if existingConsumer \<in> undefinedPastVertices a then True
      else checkConflictsFunc a consumerTx rest)"

text \<open>
  \<^verbatim>\<open>attachInputID\<close>. The consumer vertex is the payload of \<open>consumerTx\<close> in the
  heap; the function returns \<open>ok\<close> with the attacher and the world as it leaves them,
  and \<open>None\<close> when it panics.
\<close>

definition attachInputID ::
  "environment \<Rightarrow> attacher \<Rightarrow> world \<Rightarrow> vid \<Rightarrow> byte \<Rightarrow> (bool \<times> attacher \<times> world) option" where
  "attachInputID E a w consumerTx inputIdx =
     (case wrapper (heap w consumerTx) of
        WVertex consumerVertex \<Rightarrow>
          (case MustInputAt (ledgerLib E) (Tx consumerVertex) inputIdx of
             None \<Rightarrow> None
           | Some inputOid \<Rightarrow>
               if unat inputIdx \<ge> length (Inputs consumerVertex) then None
               else
                 let (vidInputTx, h1) =
                       (case Inputs consumerVertex ! unat inputIdx of
                          Some x \<Rightarrow> (x, heap w)
                        | None \<Rightarrow> AttachTxID E (oid_txid inputOid) (heap w))
                 in
                 if GetTxStatus h1 vidInputTx = Bad
                 then Some (False, setReason a (GetReason h1 vidInputTx), w\<lparr>heap := h1\<rparr>)
                 else if isKnownVertex a consumerTx \<noteq> Some True then None
                 else
                   let (attached, wtx) =
                         AttachConsumer (h1 vidInputTx) (oid_index inputOid) consumerTx
                           (checkConflictsFunc a consumerTx);
                       h2 = h1(vidInputTx := wtx);
                       done = Some (True, a,
                         w\<lparr>heap := h2(consumerTx := (h2 consumerTx)\<lparr>wrapper :=
                              WVertex (consumerVertex\<lparr>Inputs :=
                                (Inputs consumerVertex)[unat inputIdx := Some vidInputTx]\<rparr>)\<rparr>)\<rparr>)
                   in
                   if \<not> attached then
                     (case baselineBranch a of
                        None \<Rightarrow> None
                      | Some bb \<Rightarrow>
                          Some (False,
                                setReason a (Some (ErrDoubleSpend inputOid consumerTx bb)),
                                w\<lparr>heap := h2\<rparr>))
                   else if vid_IsSequencerMilestone h2 vidInputTx then
                     (case vid_BaselineBranch h2 vidInputTx of
                        None \<Rightarrow> None
                      | Some None \<Rightarrow> done
                      | Some (Some inputBaselineBranch) \<Rightarrow>
                          (case branchesCompatible E h2 (baselineBranch a) (Some inputBaselineBranch) of
                             None \<Rightarrow> None
                           | Some True \<Rightarrow> done
                           | Some False \<Rightarrow>
                               Some (False,
                                     setReason a (Some (ErrBranchesNotCompatible
                                        (the (baselineBranch a)) inputBaselineBranch)),
                                     w\<lparr>heap := h2\<rparr>)))
                   else done)
      | _ \<Rightarrow> None)"

text \<open>
  \<^verbatim>\<open>attachRooted\<close> returns \<open>(ok, isRooted)\<close> with the attacher and the heap as it
  leaves them; \<open>None\<close> is a panic (no baseline branch, or a failed assertion).
\<close>

definition attachRooted ::
  "environment \<Rightarrow> attacher \<Rightarrow> heap \<Rightarrow> wrapped_output \<Rightarrow> ((bool \<times> bool) \<times> attacher \<times> heap) option" where
  "attachRooted E a h wOut =
     (case baselineBranch a of
        None \<Rightarrow> None
      | Some bb \<Rightarrow>
          if After (wo_Timestamp h wOut) (vid_Timestamp h bb) then Some ((True, False), a, h)
          else
            let consumedRooted = rooted a (wo_VID wOut) in
            if wo_Index wOut \<in> consumedRooted then Some ((True, True), a, h)
            else
              let stateReader = baselineStateReader E bb;
                  oid = DecodeID h wOut;
                  txid = oid_txid oid
              in
              if consumedRooted = {} \<and> \<not> KnowsCommittedTransaction stateReader txid
              then Some ((True, False), a, h)
              else
                (case GetOutput stateReader oid of
                   Some out \<Rightarrow>
                     (case EnsureOutput h (wo_VID wOut) (wo_Index wOut) out of
                        None \<Rightarrow> None
                      | Some (ensured, h') \<Rightarrow>
                          if \<not> ensured then None
                          else Some ((True, True),
                                 a\<lparr>rooted := (rooted a)(wo_VID wOut := insert (wo_Index wOut) consumedRooted),
                                   coverageDelta := coverageDelta a + out_amount out\<rparr>,
                                 h'))
                 | None \<Rightarrow>
                     Some ((False, False),
                           setReason a (Some (ErrConsumedInBaseline (wo_VID wOut) (wo_Index wOut) bb)),
                           h)))"

definition Pull :: "world \<Rightarrow> transaction_id \<Rightarrow> world" where
  "Pull w txid = w\<lparr>pulled := pulled w @ [txid]\<rparr>"

definition pokeMe :: "world \<Rightarrow> vid \<Rightarrow> world" where
  "pokeMe w v = w\<lparr>poked := poked w @ [v]\<rparr>"

text \<open>
  \<^verbatim>\<open>attachOutput\<close> and \<^verbatim>\<open>attachInput\<close> descend into \<^verbatim>\<open>attachVertex\<close>, which
  calls them back for the inputs of the deeper vertex. The descent is the parameter
  \<open>attachVertex\<close> here: it is given the vertex, the horizon and the visited set, and
  returns \<open>ok\<close> with the state it leaves. What the two functions do before and around
  the descent is modelled in full.
\<close>

type_synonym attach_result = "(bool \<times> attacher \<times> world \<times> vid set) option"

type_synonym attachVertex_fn =
  "vid \<Rightarrow> logical_time \<Rightarrow> vid set \<Rightarrow> attacher \<Rightarrow> world \<Rightarrow> attach_result"

definition attachOutput ::
  "environment \<Rightarrow> attachVertex_fn \<Rightarrow> attacher \<Rightarrow> world \<Rightarrow> wrapped_output \<Rightarrow> logical_time
     \<Rightarrow> vid set \<Rightarrow> attach_result" where
  "attachOutput E attachVertex a w wOut parasiticChainHorizon visited =
     (case attachRooted E a (heap w) wOut of
        None \<Rightarrow> None
      | Some ((ok, isRooted'), a1, h1) \<Rightarrow>
          let w1 = w\<lparr>heap := h1\<rparr> in
          if \<not> ok then Some (False, a1, w1, visited)
          else if isRooted' then Some (True, a1, w1, visited)
          else if Before (wo_Timestamp h1 wOut) parasiticChainHorizon then
            Some (False,
                  setReason a1 (Some (ErrParasiticChain parasiticChainHorizon (wo_VID wOut) (wo_Index wOut))),
                  w1, visited)
          else
            let status = GetTxStatus h1 (wo_VID wOut) in
            (case wrapper (h1 (wo_VID wOut)) of
               WVertex v \<Rightarrow>
                 let isSeq = txid_IsSequencerMilestone (ID (h1 (wo_VID wOut))) in
                 if \<not> isSeq \<or> status = Good then
                   attachVertex (wo_VID wOut)
                     (if isSeq then NilLogicalTime else parasiticChainHorizon) visited a1 w1
                 else Some (True, a1, pokeMe w1 (wo_VID wOut), visited)
             | WVirtualTx v \<Rightarrow>
                 Some (True, a1, pokeMe (Pull w1 (ID (h1 (wo_VID wOut)))) (wo_VID wOut), visited)
             | WDeleted \<Rightarrow> Some (True, a1, w1, visited)))"

text \<open>
  \<^verbatim>\<open>attachInput\<close> returns \<open>(ok, success)\<close>. The vertex \<open>v\<close> of the source is the
  payload of \<open>vid\<close> in the heap.
\<close>

definition attachInput ::
  "environment \<Rightarrow> attachVertex_fn \<Rightarrow> attacher \<Rightarrow> world \<Rightarrow> vid \<Rightarrow> byte \<Rightarrow> logical_time
     \<Rightarrow> vid set \<Rightarrow> ((bool \<times> bool) \<times> attacher \<times> world \<times> vid set) option" where
  "attachInput E attachVertex a w vid inputIdx parasiticChainHorizon visited =
     (case attachInputID E a w vid inputIdx of
        None \<Rightarrow> None
      | Some (ok0, a1, w1) \<Rightarrow>
          if \<not> ok0 then Some ((False, False), a1, w1, visited)
          else
            (case wrapper (heap w1 vid) of
               WVertex v \<Rightarrow>
                 (case Inputs v ! unat inputIdx of
                    None \<Rightarrow> None
                  | Some inp \<Rightarrow>
                      let horizon =
                            (if parasiticChainHorizon = NilLogicalTime
                             then MustNewLogicalTime
                                    (lt_slot (vid_Timestamp (heap w1) inp)
                                       - maxToleratedParasiticChainSlots E) 0
                             else parasiticChainHorizon)
                      in
                      (case MustOutputIndexOfTheInput (ledgerLib E) (Tx v) inputIdx of
                         None \<Rightarrow> None
                       | Some idx \<Rightarrow>
                           (case attachOutput E attachVertex a1 w1 \<lparr>wo_VID = inp, wo_Index = idx\<rparr>
                                   horizon visited of
                              None \<Rightarrow> None
                            | Some (ok1, a2, w2, visited2) \<Rightarrow>
                                if \<not> ok1 then Some ((False, False), a2, w2, visited2)
                                else Some ((True, inp \<in> validPastVertices a2 \<or> isRooted a2 inp),
                                           a2, w2, visited2))))
             | _ \<Rightarrow> None))"

section \<open>The sequencer tip pool: package \<^verbatim>\<open>tippool\<close>\<close>

text \<open>
  The set of outputs is kept as the list of its members; times are nanoseconds.
\<close>

record tip_pool =
  tp_outputs :: "wrapped_output list"
  latestMilestones :: "chain_id \<Rightarrow> vid option"
  lastPruned :: int
  outputCount :: int
  removedOutputsSinceReset :: int

text \<open>
  \<^verbatim>\<open>isCandidateToTagAlong\<close>: \<open>None\<close> when \<^verbatim>\<open>OutputAt\<close> panics.
\<close>

definition isCandidateToTagAlong :: "ledger_lib \<Rightarrow> heap \<Rightarrow> wrapped_output \<Rightarrow> bool option" where
  "isCandidateToTagAlong L h wOut =
     (if IsBadOrDeleted h (wo_VID wOut) then Some False
      else if vid_IsBranchTransaction h (wo_VID wOut) then Some False
      else
        (case OutputAt L h (wo_VID wOut) (wo_Index wOut) of
           None \<Rightarrow> None
         | Some (Inl err) \<Rightarrow> Some False
         | Some (Inr None) \<Rightarrow> Some True
         | Some (Inr (Some out)) \<Rightarrow>
             if out_chain_constraint_index out \<noteq> 0xff then Some False else Some True))"

text \<open>The first loop of \<^verbatim>\<open>purge\<close>: the outputs to delete.\<close>

fun purge_toDelete :: "ledger_lib \<Rightarrow> heap \<Rightarrow> wrapped_output list \<Rightarrow> wrapped_output list option" where
  "purge_toDelete L h [] = Some []"
| "purge_toDelete L h (wOut # rest) =
     (case isCandidateToTagAlong L h wOut of
        None \<Rightarrow> None
      | Some c \<Rightarrow>
          (case purge_toDelete L h rest of
             None \<Rightarrow> None
           | Some toDelete \<Rightarrow> Some (if \<not> c then wOut # toDelete else toDelete)))"

text \<open>
  \<^verbatim>\<open>purge\<close> at the time \<open>now\<close>; \<open>slotDuration\<close> is \<^verbatim>\<open>ledger.SlotDuration()\<close>,
  a positive duration.
\<close>

definition purge :: "ledger_lib \<Rightarrow> int \<Rightarrow> heap \<Rightarrow> int \<Rightarrow> tip_pool \<Rightarrow> tip_pool option" where
  "purge L slotDuration h now tp =
     (let cleanupPeriod = slotDuration div 2 in
      if now - lastPruned tp < cleanupPeriod then Some tp
      else
        (case purge_toDelete L h (tp_outputs tp) of
           None \<Rightarrow> None
         | Some toDelete \<Rightarrow>
             Some (tp\<lparr>tp_outputs := filter (\<lambda>wOut. wOut \<notin> set toDelete) (tp_outputs tp),
                      removedOutputsSinceReset := removedOutputsSinceReset tp + int (length toDelete),
                      latestMilestones :=
                        (\<lambda>chainID. case latestMilestones tp chainID of
                                      None \<Rightarrow> None
                                    | Some v \<Rightarrow> if IsBadOrDeleted h v then None else Some v),
                      lastPruned := now\<rparr>)))"

text \<open>The listener that \<^verbatim>\<open>New\<close> registers with \<^verbatim>\<open>ListenToAccount\<close>.\<close>

definition accountListener ::
  "ledger_lib \<Rightarrow> int \<Rightarrow> heap \<Rightarrow> int \<Rightarrow> tip_pool \<Rightarrow> wrapped_output \<Rightarrow> tip_pool option" where
  "accountListener L slotDuration h now tp wOut =
     (case purge L slotDuration h now tp of
        None \<Rightarrow> None
      | Some tp1 \<Rightarrow>
          (case isCandidateToTagAlong L h wOut of
             None \<Rightarrow> None
           | Some c \<Rightarrow>
               if \<not> c then Some tp1
               else Some (tp1\<lparr>tp_outputs := List.insert wOut (tp_outputs tp1),
                              outputCount := outputCount tp1 + 1\<rparr>)))"

text \<open>
  The listener that \<^verbatim>\<open>New\<close> registers with \<^verbatim>\<open>ListenToSequencers\<close>; \<open>None\<close> when
  the sequencer id is not available (the assertion fails).
\<close>

definition sequencerListener :: "heap \<Rightarrow> tip_pool \<Rightarrow> vid \<Rightarrow> tip_pool option" where
  "sequencerListener h tp vid =
     (case SequencerIDIfAvailable h vid of
        Some (Some seqIDIncoming) \<Rightarrow>
          (case latestMilestones tp seqIDIncoming of
             None \<Rightarrow> Some (tp\<lparr>latestMilestones := (latestMilestones tp)(seqIDIncoming := Some vid)\<rparr>)
           | Some old \<Rightarrow>
               if \<not> Before (vid_Timestamp h vid) (vid_Timestamp h old)
               then Some (tp\<lparr>latestMilestones := (latestMilestones tp)(seqIDIncoming := Some vid)\<rparr>)
               else Some tp)
      | _ \<Rightarrow> None)"

text \<open>
  \<^verbatim>\<open>isPreferredMilestoneAgainstTheOther\<close> of the tip pool; \<open>None\<close> when the assertion
  fails or a nil pointer is dereferenced.
\<close>

definition isPreferredMilestoneAgainstTheOther :: "heap \<Rightarrow> vid option \<Rightarrow> vid option \<Rightarrow> bool option" where
  "isPreferredMilestoneAgainstTheOther h p1 p2 =
     (case p1 of
        None \<Rightarrow> None
      | Some vid1 \<Rightarrow>
          if \<not> vid_IsSequencerMilestone h vid1 then None
          else
            (case p2 of
               None \<Rightarrow> None
             | Some vid2 \<Rightarrow>
                 if \<not> vid_IsSequencerMilestone h vid2 then None
                 else if p1 = p2 then Some False
                 else if p2 = None then Some True
                 else
                   let coverage1 = coverage_sum (h vid1);
                       coverage2 = coverage_sum (h vid2)
                   in
                   if coverage1 > coverage2 then Some True
                   else if coverage1 = coverage2 then
                     Some (bytes_Compare (TransactionID_bytes (ID (h vid1)))
                                         (TransactionID_bytes (ID (h vid2))) > 0)
                   else Some False))"

text \<open>
  \<^verbatim>\<open>isPreferredMilestoneAgainstTheOther\<close> of \<^verbatim>\<open>sequencer/proposer.go\<close>: the
  coverage is read from the tangle, \<open>LedgerCoverage\<close> being \<^verbatim>\<open>ut.LedgerCoverage\<close>.
\<close>

definition proposer_isPreferredMilestoneAgainstTheOther ::
  "(vid \<Rightarrow> uint64) \<Rightarrow> heap \<Rightarrow> vid option \<Rightarrow> vid option \<Rightarrow> bool option" where
  "proposer_isPreferredMilestoneAgainstTheOther LedgerCoverage h p1 p2 =
     (case p1 of
        None \<Rightarrow> None
      | Some vid1 \<Rightarrow>
          if \<not> vid_IsSequencerMilestone h vid1 then None
          else
            (case p2 of
               None \<Rightarrow> None
             | Some vid2 \<Rightarrow>
                 if \<not> vid_IsSequencerMilestone h vid2 then None
                 else if p1 = p2 then Some False
                 else if p2 = None then Some True
                 else
                   let coverage1 = LedgerCoverage vid1;
                       coverage2 = LedgerCoverage vid2
                   in
                   if coverage1 > coverage2 then Some True
                   else if coverage1 = coverage2 then
                     Some (bytes_Compare (TransactionID_bytes (ID (h vid1)))
                                         (TransactionID_bytes (ID (h vid2))) > 0)
                   else Some False))"

section \<open>Notions the properties are stated with\<close>

text \<open>
  The amount of the produced output \<open>i\<close> as \<^verbatim>\<open>ScanOutputs\<close> reads it: the output
  bytes at the path of \<^verbatim>\<open>byte(i)\<close>, parsed by \<^verbatim>\<open>OutputFromBytesMain\<close>; \<open>None\<close>
  when the bytes are missing or do not parse.
\<close>

definition producedAmountAt :: "ledger_lib \<Rightarrow> tree \<Rightarrow> nat \<Rightarrow> uint64 option" where
  "producedAmountAt L t i =
     (case BytesAtPath t (TxOutputs, [of_nat i]) of
        None \<Rightarrow> None
      | Some data \<Rightarrow>
          (case OutputFromBytesMain L data of
             Inl err \<Rightarrow> None
           | Inr (out, amount) \<Rightarrow> Some amount))"

text \<open>The (vertex, output index) pairs recorded in \<^verbatim>\<open>a.rooted\<close>.\<close>

definition rootedPairs :: "attacher \<Rightarrow> (vid \<times> byte) set" where
  "rootedPairs a = {(v, i). i \<in> rooted a v}"

text \<open>The output of a rooted pair in the state of the baseline branch \<open>bb\<close>.\<close>

definition baselineOutput :: "environment \<Rightarrow> heap \<Rightarrow> vid \<Rightarrow> vid \<times> byte \<Rightarrow> ledger_output option" where
  "baselineOutput E h bb p = GetOutput (baselineStateReader E bb) (NewOutputID (ID (h (fst p))) (snd p))"

text \<open>The exact sum, over the natural numbers, of the amounts of the rooted pairs.\<close>

definition rootedSum :: "environment \<Rightarrow> heap \<Rightarrow> vid \<Rightarrow> attacher \<Rightarrow> nat" where
  "rootedSum E h bb a = (\<Sum>p \<in> rootedPairs a. unat (out_amount (the (baselineOutput E h bb p))))"

text \<open>
  The rooted-coverage predicate on the state of an attacher: the coverage delta is the
  sum of the rooted amounts as a 64-bit accumulator holds it, every rooted pair is an
  output of the baseline state, and no vertex with rooted outputs is later than the
  baseline branch. The map \<^verbatim>\<open>a.rooted\<close> has finitely many entries.
\<close>

definition rootedInvariant :: "environment \<Rightarrow> heap \<Rightarrow> attacher \<Rightarrow> bool" where
  "rootedInvariant E h a =
     (case baselineBranch a of
        None \<Rightarrow> False
      | Some bb \<Rightarrow>
          finite (rootedPairs a)
          \<and> unat (coverageDelta a) = rootedSum E h bb a mod 2 ^ 64
          \<and> (\<forall>p \<in> rootedPairs a. baselineOutput E h bb p \<noteq> None)
          \<and> (\<forall>v. rooted a v \<noteq> {} \<longrightarrow> \<not> After (vid_Timestamp h v) (vid_Timestamp h bb)))"



section \<open>Concrete instances\<close>

text \<open>
  A small ledger library, a heap of wrapped transactions, a baseline state and an
  attacher, on which the theorems are exercised. Vertices 1 and 2 are branches of
  slot 100; vertex 3 is a sequencer milestone whose input, output 0 of vertex 5, is
  resolved; vertex 9 is a sequencer milestone whose input, output 0 of vertex 8, is not
  resolved yet; vertices 6 and 7 are milestones of one sequencer with equal timestamps;
  vertex 8 has two outputs in the baseline state.
\<close>

definition ex_txid :: "nat \<Rightarrow> transaction_id" where
  "ex_txid k =
     (if k = 1 \<or> k = 2 then
        \<lparr>txid_timestamp = \<lparr>lt_slot = 100, lt_tick = 0\<rparr>, txid_sequencer_flag = True,
         txid_branch_flag = True, txid_hash = [of_nat k]\<rparr>
      else if k = 3 \<or> k = 9 then
        \<lparr>txid_timestamp = \<lparr>lt_slot = 101, lt_tick = 5\<rparr>, txid_sequencer_flag = True,
         txid_branch_flag = False, txid_hash = [of_nat k]\<rparr>
      else if k = 6 \<or> k = 7 then
        \<lparr>txid_timestamp = \<lparr>lt_slot = 100, lt_tick = 10\<rparr>, txid_sequencer_flag = True,
         txid_branch_flag = False, txid_hash = [of_nat k]\<rparr>
      else if k = 8 then
        \<lparr>txid_timestamp = \<lparr>lt_slot = 99, lt_tick = 3\<rparr>, txid_sequencer_flag = False,
         txid_branch_flag = False, txid_hash = [8]\<rparr>
      else
        \<lparr>txid_timestamp = \<lparr>lt_slot = 10, lt_tick = 7\<rparr>, txid_sequencer_flag = False,
         txid_branch_flag = False, txid_hash = [of_nat k]\<rparr>)"

definition ex_lib :: ledger_lib where
  "ex_lib =
     \<lparr>TreeFromBytesReadOnly =
        (\<lambda>bs. \<lparr>tree_Bytes = bs,
               BytesAtPath =
                 (\<lambda>p. if p = Path TxTimestamp then Some (take 5 bs)
                      else if p = Path TxSequencerAndStemOutputIndices then Some (take 2 (drop 5 bs))
                      else if p = Path TxTotalProducedAmount then Some (drop 7 bs)
                      else None),
               NumElements = (\<lambda>p. None)\<rparr>),
      LogicalTimeFromBytes =
        (\<lambda>d. if length d = 5 then Inr \<lparr>lt_slot = ucast (d ! 3), lt_tick = d ! 4\<rparr>
             else Inl ''wrong data length''),
      HashTransactionBytes = (\<lambda>bs. take 4 bs),
      OutputFromBytesMain =
        (\<lambda>d. case d of
                [b, s] \<Rightarrow>
                  Inr (\<lparr>out_amount = push_bit (unat s) (ucast b), out_chain_constraint_index = 0xff\<rparr>,
                       push_bit (unat s) (ucast b))
              | _ \<Rightarrow> Inl ''malformed output''),
      OutputFromBytesReadOnly =
        (\<lambda>d. case d of
                [b, s] \<Rightarrow>
                  Inr \<lparr>out_amount = push_bit (unat s) (ucast b), out_chain_constraint_index = 0xff\<rparr>
              | _ \<Rightarrow> Inl ''malformed output''),
      OutputIDFromBytes =
        (\<lambda>d. case d of
                [v, i] \<Rightarrow> Inr (NewOutputID (ex_txid (unat v)) i)
              | _ \<Rightarrow> Inl ''malformed output id''),
      MustOutputIndexFromIDBytes = (\<lambda>d. case d of [v, i] \<Rightarrow> Some i | _ \<Rightarrow> None)\<rparr>"

text \<open>A transaction over a tree with the given input ids and output bytes.\<close>

definition ex_tx :: "nat \<Rightarrow> byte list list \<Rightarrow> byte list list \<Rightarrow> uint64 \<Rightarrow> transaction" where
  "ex_tx k ins outs tot =
     \<lparr>tx_tree =
        \<lparr>tree_Bytes = [],
         BytesAtPath =
           (\<lambda>p. case p of
                   (TxInputIDs, [i]) \<Rightarrow> if unat i < length ins then Some (ins ! unat i) else None
                 | (TxOutputs, [i]) \<Rightarrow> if unat i < length outs then Some (outs ! unat i) else None
                 | _ \<Rightarrow> None),
         NumElements =
           (\<lambda>p. if p = Path TxInputIDs then Some (length ins)
                else if p = Path TxOutputs then Some (length outs)
                else None)\<rparr>,
      txHash = txid_hash (ex_txid k),
      sequencerMilestoneFlag = txid_sequencer_flag (ex_txid k),
      branchTransactionFlag = txid_branch_flag (ex_txid k),
      timestamp = txid_timestamp (ex_txid k),
      totalAmount = tot,
      sequencerTransactionData = None,
      byteSize = 0\<rparr>"

definition ex_consumer_vertex :: vertex where
  "ex_consumer_vertex =
     \<lparr>Tx = ex_tx 3 [[5, 0]] [[1, 0]] 1, Inputs = [Some 5], Endorsements = [], BaselineBranch = Some 1\<rparr>"

definition ex_fresh_vertex :: vertex where
  "ex_fresh_vertex =
     \<lparr>Tx = ex_tx 9 [[8, 0]] [[1, 0]] 1, Inputs = [None], Endorsements = [], BaselineBranch = Some 1\<rparr>"

definition ex_heap :: heap where
  "ex_heap v =
     \<lparr>ID = ex_txid v,
      txStatus = (if v = 1 \<or> v = 2 \<or> v = 6 \<or> v = 7 then Good else Undefined),
      vid_reason = None,
      wrapper =
        (if v = 3 then WVertex ex_consumer_vertex
         else if v = 9 then WVertex ex_fresh_vertex
         else
           WVirtualTx \<lparr>vt_outputs = (\<lambda>_. None),
                       vt_sequencerID = (if v = 6 \<or> v = 7 then Some [6] else None)\<rparr>),
      consumers = (\<lambda>i. if v = 5 \<and> i = 0 then [4] else []),
      coverage_sum = (if v = 6 \<or> v = 7 then 100 else 0)\<rparr>"

text \<open>The heap in which the only registered consumer of output 0 of vertex 5 is vertex 3.\<close>

definition ex_heap_self :: heap where
  "ex_heap_self = ex_heap(5 := (ex_heap 5)\<lparr>consumers := (\<lambda>i. if i = 0 then [3] else [])\<rparr>)"

definition ex_state :: state_reader where
  "ex_state =
     \<lparr>KnowsCommittedTransaction = (\<lambda>t. t = ex_txid 8),
      GetOutput =
        (\<lambda>oid. if oid = NewOutputID (ex_txid 8) 0 \<or> oid = NewOutputID (ex_txid 8) 1
               then Some \<lparr>out_amount = 2 ^ 63, out_chain_constraint_index = 0xff\<rparr>
               else None)\<rparr>"

definition ex_env :: environment where
  "ex_env =
     \<lparr>ledgerLib = ex_lib,
      BranchIsDescendantOf = (\<lambda>_ _. False),
      GetStateReaderForTheBranch = (\<lambda>_. ex_state),
      AttachTxID = (\<lambda>txid h. (if txid = ex_txid 8 then 8 else 0, h)),
      maxToleratedParasiticChainSlots = 2\<rparr>"

text \<open>
  An attacher with baseline branch 1 whose past cone holds vertex 4 (valid) and the
  vertex 3 under attachment (undefined).
\<close>

definition ex_attacher :: attacher where
  "ex_attacher =
     (newPastConeAttacher ''ex'')\<lparr>baselineBranch := Some 1, validPastVertices := {4},
                                  undefinedPastVertices := {3}\<rparr>"

text \<open>
  Rooting the two outputs of vertex 8 one after the other, from a new attacher with
  baseline branch 1: the attacher after output 0 is rooted and after output 1 is
  rooted as well, with the heaps in which the virtual transaction 8 has learnt its
  output 0 and then its output 1.
\<close>

definition ex_attacher_half :: attacher where
  "ex_attacher_half =
     (newPastConeAttacher ''ex'')\<lparr>rooted := (\<lambda>_. {})(8 := {0}), baselineBranch := Some 1,
                                  coverageDelta := 2 ^ 63\<rparr>"

definition ex_attacher_full :: attacher where
  "ex_attacher_full =
     (newPastConeAttacher ''ex'')\<lparr>rooted := (\<lambda>_. {})(8 := {1, 0}), baselineBranch := Some 1,
                                  coverageDelta := 0\<rparr>"

definition ex_heap_half :: heap where
  "ex_heap_half =
     ex_heap(8 := (ex_heap 8)\<lparr>wrapper :=
       WVirtualTx \<lparr>vt_outputs = (\<lambda>_. None)(0 := Some \<lparr>out_amount = 2 ^ 63, out_chain_constraint_index = 0xff\<rparr>),
                   vt_sequencerID = None\<rparr>\<rparr>)"

definition ex_heap_ensured :: heap where
  "ex_heap_ensured =
     ex_heap(8 := (ex_heap 8)\<lparr>wrapper :=
       WVirtualTx \<lparr>vt_outputs = (\<lambda>_. None)(0 := Some \<lparr>out_amount = 2 ^ 63, out_chain_constraint_index = 0xff\<rparr>,
                                              1 := Some \<lparr>out_amount = 2 ^ 63, out_chain_constraint_index = 0xff\<rparr>),
                   vt_sequencerID = None\<rparr>\<rparr>)"




definition ex_world :: "heap \<Rightarrow> world" where
  "ex_world h = \<lparr>heap = h, pulled = [], poked = []\<rparr>"

definition ex_pool :: tip_pool where
  "ex_pool =
     \<lparr>tp_outputs = [], latestMilestones = (\<lambda>_. None), lastPruned = 0, outputCount = 0,
      removedOutputsSinceReset = 0\<rparr>"

section \<open>Verified properties\<close>

subsection \<open>Branch compatibility and milestone preference\<close>

lemma bytes_Compare_pos_iff: "bytes_Compare xs ys > 0 \<longleftrightarrow> ys < xs"
  by (induction xs ys rule: bytes_Compare.induct) auto

text \<open>
  Claim C4. Branch-compatibility algebra: a branch is compatible with itself; two
  distinct branches lying in the same slot are not compatible; hence, for branches
  \<open>c1\<close>, \<open>c2\<close>, \<open>c3\<close> of one slot, compatibility of \<open>c1\<close> with \<open>c2\<close> and of \<open>c2\<close>
  with \<open>c3\<close> makes the three the same branch.
\<close>

theorem branchesCompatible_algebra:
  "(vid_IsBranchTransaction h b \<longrightarrow> branchesCompatible E h (Some b) (Some b) = Some True)
   \<and> (vid_IsBranchTransaction h b1 \<and> vid_IsBranchTransaction h b2 \<and> b1 \<noteq> b2
        \<and> vid_Slot h b1 = vid_Slot h b2
      \<longrightarrow> branchesCompatible E h (Some b1) (Some b2) = Some False)
   \<and> (vid_IsBranchTransaction h c1 \<and> vid_IsBranchTransaction h c2 \<and> vid_IsBranchTransaction h c3
        \<and> vid_Slot h c1 = vid_Slot h c2 \<and> vid_Slot h c2 = vid_Slot h c3
        \<and> branchesCompatible E h (Some c1) (Some c2) = Some True
        \<and> branchesCompatible E h (Some c2) (Some c3) = Some True
      \<longrightarrow> c1 = c2 \<and> c2 = c3)"
  by (auto simp: branchesCompatible_def split: if_splits)

lemma ex_branches:
  "vid_IsBranchTransaction ex_heap 1" "vid_IsBranchTransaction ex_heap 2"
  "vid_Slot ex_heap 1 = vid_Slot ex_heap 2"
  by (simp_all add: vid_IsBranchTransaction_def vid_Slot_def txid_IsBranchTransaction_def
        ex_heap_def ex_txid_def)

theorem branchesCompatible_algebra_witness:
  "vid_IsBranchTransaction ex_heap 1 \<and> vid_IsBranchTransaction ex_heap 2
   \<and> (1::nat) \<noteq> 2 \<and> vid_Slot ex_heap 1 = vid_Slot ex_heap 2
   \<and> branchesCompatible ex_env ex_heap (Some 1) (Some 1) = Some True
   \<and> branchesCompatible ex_env ex_heap (Some 1) (Some 2) = Some False
   \<and> branchesCompatible ex_env ex_heap (Some 2) (Some 2) = Some True"
  using branchesCompatible_algebra [of ex_heap 1 ex_env 1 2 1 1 1]
        branchesCompatible_algebra [of ex_heap 2 ex_env 1 2 1 1 1]
        ex_branches
  by simp

text \<open>
  Claim C5. Milestone preference order: for two distinct sequencer milestones the
  function returns true exactly when the coverage sum of the first is strictly greater,
  or the sums are equal and the transaction id of the first is lexicographically
  greater (the order of byte lists); for one and the same milestone it returns false.
  The same holds of the function of the same name in the proposer.
\<close>

theorem isPreferred_order:
  assumes "vid_IsSequencerMilestone h v1" and "vid_IsSequencerMilestone h v2"
  shows "(v1 \<noteq> v2 \<longrightarrow>
      isPreferredMilestoneAgainstTheOther h (Some v1) (Some v2)
        = Some (coverage_sum (h v1) > coverage_sum (h v2)
                \<or> (coverage_sum (h v1) = coverage_sum (h v2)
                    \<and> TransactionID_bytes (ID (h v2)) < TransactionID_bytes (ID (h v1))))
      \<and> proposer_isPreferredMilestoneAgainstTheOther LedgerCoverage h (Some v1) (Some v2)
        = Some (LedgerCoverage v1 > LedgerCoverage v2
                \<or> (LedgerCoverage v1 = LedgerCoverage v2
                    \<and> TransactionID_bytes (ID (h v2)) < TransactionID_bytes (ID (h v1)))))
   \<and> (v1 = v2 \<longrightarrow>
        isPreferredMilestoneAgainstTheOther h (Some v1) (Some v2) = Some False
      \<and> proposer_isPreferredMilestoneAgainstTheOther LedgerCoverage h (Some v1) (Some v2) = Some False)"
  using assms
  by (auto simp: isPreferredMilestoneAgainstTheOther_def
        proposer_isPreferredMilestoneAgainstTheOther_def bytes_Compare_pos_iff Let_def)

lemma ex_milestones:
  "vid_IsSequencerMilestone ex_heap 6" "vid_IsSequencerMilestone ex_heap 7"
  by (simp_all add: vid_IsSequencerMilestone_def txid_IsSequencerMilestone_def ex_heap_def ex_txid_def)

lemma ex_milestone_bytes:
  "TransactionID_bytes (ID (ex_heap 6)) = [0x80, 0, 0, 100, 10, 6]"
  "TransactionID_bytes (ID (ex_heap 7)) = [0x80, 0, 0, 100, 10, 7]"
  by (simp_all add: TransactionID_bytes_def ex_heap_def ex_txid_def drop_bit_eq_div)

theorem isPreferred_order_witness:
  "vid_IsSequencerMilestone ex_heap 7 \<and> vid_IsSequencerMilestone ex_heap 6
   \<and> isPreferredMilestoneAgainstTheOther ex_heap (Some 7) (Some 6) = Some True
   \<and> isPreferredMilestoneAgainstTheOther ex_heap (Some 6) (Some 7) = Some False
   \<and> isPreferredMilestoneAgainstTheOther ex_heap (Some 6) (Some 6) = Some False
   \<and> proposer_isPreferredMilestoneAgainstTheOther (\<lambda>v. if v = 7 then 5 else 4) ex_heap (Some 7) (Some 6)
       = Some True"
proof -
  have cov: "coverage_sum (ex_heap 6) = 100" "coverage_sum (ex_heap 7) = 100"
    by (simp_all add: ex_heap_def)
  have lt: "[0x80, 0, 0, 100, 10, 6] < [0x80, 0, 0, 100, 10, (7 :: byte)]"
    by simp
  show ?thesis
    using isPreferred_order [OF ex_milestones(2) ex_milestones(1), of "\<lambda>v. if v = 7 then 5 else 4"]
          isPreferred_order [OF ex_milestones(1) ex_milestones(2), of "\<lambda>v. if v = 7 then 5 else 4"]
          isPreferred_order [OF ex_milestones(1) ex_milestones(1), of "\<lambda>v. if v = 7 then 5 else 4"]
          ex_milestones cov lt
    by (simp add: ex_milestone_bytes)
qed

subsection \<open>Transaction validation\<close>

lemma unat_max_minus: "unat ((- 1 :: uint64) - x) = 2 ^ 64 - 1 - unat x"
proof -
  have "x \<le> - 1" by simp
  then have "unat ((- 1 :: uint64) - x) = unat (- 1 :: uint64) - unat x"
    by (rule unat_sub)
  then show ?thesis by (simp add: unsigned_minus_1_eq_mask mask_eq_exp_minus_1)
qed

lemma unat_lt_64: "unat (x :: uint64) < 2 ^ 64"
proof -
  have "unat x < 2 ^ LENGTH(64)" by (rule unsigned_less)
  then show ?thesis by simp
qed

lemma overflow_check_iff:
  "(amount > (- 1 :: uint64) - tot) \<longleftrightarrow> unat tot + unat amount \<ge> 2 ^ 64"
proof -
  have "unat tot < 2 ^ 64" by (rule unat_lt_64)
  then show ?thesis
    by (simp add: word_less_nat_alt unat_max_minus) arith
qed

lemma unat_add_no_overflow:
  "unat (tot :: uint64) + unat amount < 2 ^ 64 \<Longrightarrow> unat (tot + amount) = unat tot + unat amount"
  by (simp add: unat_word_ariths)

lemma scanOutputsLoop_step:
  "producedAmountAt L t i = Some amount \<Longrightarrow>
   scanOutputsLoop L t i (Suc k) tot =
     (if unat tot + unat amount \<ge> 2 ^ 64 then Inl (ErrArithmeticOverflow i)
      else scanOutputsLoop L t (Suc i) k (tot + amount))"
  by (auto simp: producedAmountAt_def overflow_check_iff split: option.splits sum.splits)

lemma scanOutputsLoop_fail:
  "producedAmountAt L t i = None \<Longrightarrow> \<exists>e. scanOutputsLoop L t i (Suc k) tot = Inl e"
  by (auto simp: producedAmountAt_def split: option.splits sum.splits)

lemma scanOutputsLoop_Inr:
  "scanOutputsLoop L t i k tot = Inr r \<longleftrightarrow>
     (\<forall>j<k. producedAmountAt L t (i + j) \<noteq> None)
     \<and> unat tot + (\<Sum>j<k. unat (the (producedAmountAt L t (i + j)))) = unat r"
proof (induction k arbitrary: i tot)
  case 0
  then show ?case by (auto simp: word_unat_eq_iff)
next
  case (Suc k)
  show ?case
  proof (cases "producedAmountAt L t i")
    case None
    then obtain e where "scanOutputsLoop L t i (Suc k) tot = Inl e"
      using scanOutputsLoop_fail by blast
    moreover have "\<not> (\<forall>j<Suc k. producedAmountAt L t (i + j) \<noteq> None)"
      using None by (auto intro: exI [of _ 0])
    ultimately show ?thesis by simp
  next
    case (Some amount)
    have all_shift: "(\<forall>j<Suc k. producedAmountAt L t (i + j) \<noteq> None)
        \<longleftrightarrow> (\<forall>j<k. producedAmountAt L t (Suc i + j) \<noteq> None)"
      using Some by (auto simp: less_Suc_eq_0_disj)
    have sum_shift: "(\<Sum>j<Suc k. unat (the (producedAmountAt L t (i + j))))
        = unat amount + (\<Sum>j<k. unat (the (producedAmountAt L t (Suc i + j))))"
      by (subst sum.lessThan_Suc_shift) (simp add: Some)
    have r_bound: "unat r < 2 ^ 64" by (rule unat_lt_64)
    show ?thesis
    proof (cases "unat tot + unat amount \<ge> 2 ^ 64")
      case True
      then show ?thesis
        using scanOutputsLoop_step [OF Some, of k tot] sum_shift r_bound by auto
    next
      case False
      then have "unat (tot + amount) = unat tot + unat amount"
        by (simp add: unat_add_no_overflow)
      then show ?thesis
        using scanOutputsLoop_step [OF Some, of k tot] False Suc.IH [of "Suc i" "tot + amount"]
              all_shift sum_shift
        by (simp add: add.assoc)
    qed
  qed
qed

lemma scanOutputsLoop_overflow:
  "m < k \<Longrightarrow>
   (\<forall>j\<le>m. producedAmountAt L t (i + j) \<noteq> None) \<Longrightarrow>
   unat tot + (\<Sum>j\<le>m. unat (the (producedAmountAt L t (i + j)))) \<ge> 2 ^ 64 \<Longrightarrow>
   \<exists>n\<le>m. scanOutputsLoop L t i k tot = Inl (ErrArithmeticOverflow (i + n))"
proof (induction k arbitrary: i tot m)
  case 0
  then show ?case by simp
next
  case (Suc k)
  from Suc.prems(2) obtain amount where Some: "producedAmountAt L t i = Some amount"
    by (metis add.right_neutral not_None_eq le0)
  show ?case
  proof (cases "unat tot + unat amount \<ge> 2 ^ 64")
    case True
    then have "scanOutputsLoop L t i (Suc k) tot = Inl (ErrArithmeticOverflow (i + 0))"
      using scanOutputsLoop_step [OF Some, of k tot] by simp
    then show ?thesis by blast
  next
    case False
    have "m \<noteq> 0"
    proof
      assume "m = 0"
      then show False using Suc.prems(3) Some False by simp
    qed
    then obtain m' where m: "m = Suc m'" by (cases m) auto
    have lt: "m' < k" using Suc.prems(1) m by simp
    have all_shift: "\<forall>j\<le>m'. producedAmountAt L t (Suc i + j) \<noteq> None"
    proof (intro allI impI)
      fix j assume "j \<le> m'"
      then have "Suc j \<le> m" using m by simp
      then have "producedAmountAt L t (i + Suc j) \<noteq> None" using Suc.prems(2) by blast
      then show "producedAmountAt L t (Suc i + j) \<noteq> None" by simp
    qed
    have sum_shift: "(\<Sum>j\<le>Suc m'. unat (the (producedAmountAt L t (i + j))))
        = unat amount + (\<Sum>j\<le>m'. unat (the (producedAmountAt L t (Suc i + j))))"
      by (subst sum.atMost_Suc_shift) (simp add: Some)
    have "unat (tot + amount) = unat tot + unat amount"
      using False by (simp add: unat_add_no_overflow)
    then have "2 ^ 64 \<le> unat (tot + amount) + (\<Sum>j\<le>m'. unat (the (producedAmountAt L t (Suc i + j))))"
      using Suc.prems(3) sum_shift m by simp
    from Suc.IH [OF lt all_shift this] obtain n where
      n: "n \<le> m'" "scanOutputsLoop L t (Suc i) k (tot + amount) = Inl (ErrArithmeticOverflow (Suc i + n))"
      by blast
    have "scanOutputsLoop L t i (Suc k) tot = Inl (ErrArithmeticOverflow (i + Suc n))"
      using scanOutputsLoop_step [OF Some, of k tot] False n(2) by simp
    moreover have "Suc n \<le> m" using n(1) m by simp
    ultimately show ?thesis by blast
  qed
qed

text \<open>
  Claim C8. Conservation with exact 64-bit arithmetic: \<^verbatim>\<open>ScanOutputs\<close> succeeds if
  and only if every produced output parses and the exact sum, over the natural
  numbers, of the amounts of the produced outputs equals the declared total amount;
  and as soon as the exact sum of the amounts of the outputs \<open>0..m\<close>, which parse, does
  not fit in 64 bits, it returns the arithmetic-overflow error of an output among them,
  whatever the outputs after \<open>m\<close> are and whatever the declared total is.
\<close>

theorem ScanOutputs_conservation:
  "((\<exists>tx'. ScanOutputs L tx = Inr tx') \<longleftrightarrow>
      (\<exists>n. NumElements (tx_tree tx) (Path TxOutputs) = Some n
         \<and> (\<forall>i<n. producedAmountAt L (tx_tree tx) i \<noteq> None)
         \<and> (\<Sum>i<n. unat (the (producedAmountAt L (tx_tree tx) i))) = unat (totalAmount tx)))
   \<and> (\<forall>n m. NumElements (tx_tree tx) (Path TxOutputs) = Some n \<and> m < n
         \<and> (\<forall>i\<le>m. producedAmountAt L (tx_tree tx) i \<noteq> None)
         \<and> (\<Sum>i\<le>m. unat (the (producedAmountAt L (tx_tree tx) i))) \<ge> 2 ^ 64
       \<longrightarrow> (\<exists>i\<le>m. ScanOutputs L tx = Inl (ErrArithmeticOverflow i)))"
proof (intro conjI allI impI)
  show "(\<exists>tx'. ScanOutputs L tx = Inr tx') \<longleftrightarrow>
      (\<exists>n. NumElements (tx_tree tx) (Path TxOutputs) = Some n
         \<and> (\<forall>i<n. producedAmountAt L (tx_tree tx) i \<noteq> None)
         \<and> (\<Sum>i<n. unat (the (producedAmountAt L (tx_tree tx) i))) = unat (totalAmount tx))"
  proof (cases "NumElements (tx_tree tx) (Path TxOutputs)")
    case None
    then show ?thesis by (simp add: ScanOutputs_def)
  next
    case (Some n)
    have "(\<exists>tx'. ScanOutputs L tx = Inr tx')
        \<longleftrightarrow> scanOutputsLoop L (tx_tree tx) 0 n 0 = Inr (totalAmount tx)"
      using Some by (auto simp: ScanOutputs_def split: sum.splits)
    then show ?thesis
      using Some scanOutputsLoop_Inr [of L "tx_tree tx" 0 n 0 "totalAmount tx"] by simp
  qed
next
  fix n m
  assume h: "NumElements (tx_tree tx) (Path TxOutputs) = Some n \<and> m < n
         \<and> (\<forall>i\<le>m. producedAmountAt L (tx_tree tx) i \<noteq> None)
         \<and> (\<Sum>i\<le>m. unat (the (producedAmountAt L (tx_tree tx) i))) \<ge> 2 ^ 64"
  then obtain i where "i \<le> m" "scanOutputsLoop L (tx_tree tx) 0 n 0 = Inl (ErrArithmeticOverflow i)"
    using scanOutputsLoop_overflow [of m n L "tx_tree tx" 0 0] by auto
  then show "\<exists>i\<le>m. ScanOutputs L tx = Inl (ErrArithmeticOverflow i)"
    using h by (auto simp: ScanOutputs_def)
qed

lemma ex_lib_simps:
  "TreeFromBytesReadOnly ex_lib bs =
     \<lparr>tree_Bytes = bs,
      BytesAtPath =
        (\<lambda>p. if p = Path TxTimestamp then Some (take 5 bs)
             else if p = Path TxSequencerAndStemOutputIndices then Some (take 2 (drop 5 bs))
             else if p = Path TxTotalProducedAmount then Some (drop 7 bs)
             else None),
      NumElements = (\<lambda>p. None)\<rparr>"
  "LogicalTimeFromBytes ex_lib d =
     (if length d = 5 then Inr \<lparr>lt_slot = ucast (d ! 3), lt_tick = d ! 4\<rparr>
      else Inl ''wrong data length'')"
  "OutputFromBytesMain ex_lib [b, s] =
     Inr (\<lparr>out_amount = push_bit (unat s) (ucast b), out_chain_constraint_index = 0xff\<rparr>,
          push_bit (unat s) (ucast b))"
  "OutputIDFromBytes ex_lib [v, i] = Inr (NewOutputID (ex_txid (unat v)) i)"
  "MustOutputIndexFromIDBytes ex_lib [v, i] = Some i"
  by (simp_all add: ex_lib_def)

lemma ex_scan_amounts:
  "producedAmountAt ex_lib (tx_tree (ex_tx 4 [] [[3, 0], [4, 0]] 7)) 0 = Some 3"
  "producedAmountAt ex_lib (tx_tree (ex_tx 4 [] [[3, 0], [4, 0]] 7)) (Suc 0) = Some 4"
  "producedAmountAt ex_lib (tx_tree (ex_tx 4 [] [[1, 63], [1, 63], [0]] 0)) 0 = Some (2 ^ 63)"
  "producedAmountAt ex_lib (tx_tree (ex_tx 4 [] [[1, 63], [1, 63], [0]] 0)) (Suc 0) = Some (2 ^ 63)"
  "producedAmountAt ex_lib (tx_tree (ex_tx 4 [] [[1, 63], [1, 63], [0]] 0)) 2 = None"
  by (simp_all add: producedAmountAt_def ex_tx_def ex_lib_simps ex_lib_def)

theorem ScanOutputs_conservation_witness:
  "(\<exists>tx'. ScanOutputs ex_lib (ex_tx 4 [] [[3, 0], [4, 0]] 7) = Inr tx')
   \<and> producedAmountAt ex_lib (tx_tree (ex_tx 4 [] [[1, 63], [1, 63], [0]] 0)) 2 = None
   \<and> (\<exists>i\<le>1. ScanOutputs ex_lib (ex_tx 4 [] [[1, 63], [1, 63], [0]] 0) = Inl (ErrArithmeticOverflow i))"
proof -
  have n1: "NumElements (tx_tree (ex_tx 4 [] [[3, 0], [4, 0]] 7)) (Path TxOutputs) = Some 2"
    and n2: "NumElements (tx_tree (ex_tx 4 [] [[1, 63], [1, 63], [0]] 0)) (Path TxOutputs) = Some 3"
    and t1: "totalAmount (ex_tx 4 [] [[3, 0], [4, 0]] 7) = 7"
    by (simp_all add: ex_tx_def Path_def)
  have two: "{..<2::nat} = {0, Suc 0}" and one: "{..1::nat} = {0, Suc 0}" by auto
  have ok: "\<exists>n. NumElements (tx_tree (ex_tx 4 [] [[3, 0], [4, 0]] 7)) (Path TxOutputs) = Some n
      \<and> (\<forall>i<n. producedAmountAt ex_lib (tx_tree (ex_tx 4 [] [[3, 0], [4, 0]] 7)) i \<noteq> None)
      \<and> (\<Sum>i<n. unat (the (producedAmountAt ex_lib (tx_tree (ex_tx 4 [] [[3, 0], [4, 0]] 7)) i)))
          = unat (totalAmount (ex_tx 4 [] [[3, 0], [4, 0]] 7))"
    using n1 t1 ex_scan_amounts(1,2) by (auto simp: two less_2_cases_iff)
  have ovf: "NumElements (tx_tree (ex_tx 4 [] [[1, 63], [1, 63], [0]] 0)) (Path TxOutputs) = Some 3
      \<and> (1::nat) < 3
      \<and> (\<forall>i\<le>1. producedAmountAt ex_lib (tx_tree (ex_tx 4 [] [[1, 63], [1, 63], [0]] 0)) i \<noteq> None)
      \<and> (\<Sum>i\<le>1. unat (the (producedAmountAt ex_lib (tx_tree (ex_tx 4 [] [[1, 63], [1, 63], [0]] 0)) i)))
          \<ge> 2 ^ 64"
    using n2 ex_scan_amounts(3,4) by (auto simp: one le_Suc_eq)
  show ?thesis
    using ScanOutputs_conservation [of ex_lib "ex_tx 4 [] [[3, 0], [4, 0]] 7"]
          ScanOutputs_conservation [of ex_lib "ex_tx 4 [] [[1, 63], [1, 63], [0]] 0"] ok ovf
          ex_scan_amounts(5)
    by blast
qed

text \<open>
  Claim C7. Base-validation flag discipline: \<^verbatim>\<open>FromBytes\<close> returns an error, and
  no transaction, for bytes whose stem index differs from 0xff while the sequencer
  index is 0xff, and for bytes whose timestamp has tick 0, whose sequencer index
  differs from 0xff and whose stem index is 0xff; base validation accepts a
  non-sequencer transaction with tick 0.
\<close>

theorem BaseValidation_flag_discipline:
  assumes idx: "BytesAtPath (TreeFromBytesReadOnly L txBytes) (Path TxSequencerAndStemOutputIndices)
                  = Some [seqIdx, stemIdx]"
  shows "(seqIdx = 0xff \<and> stemIdx \<noteq> 0xff \<longrightarrow>
            FromBytes L txBytes opt =
              Inl (ErrBasicParseFailed
                    (if BytesAtPath (TreeFromBytesReadOnly L txBytes) (Path TxTimestamp) = None
                     then ErrPanic else ErrWrongBranchFlag)))
       \<and> (seqIdx \<noteq> 0xff \<and> stemIdx = 0xff
            \<and> BytesAtPath (TreeFromBytesReadOnly L txBytes) (Path TxTimestamp) = Some tsBin
            \<and> LogicalTimeFromBytes L tsBin = Inr ts \<and> lt_tick ts = 0 \<longrightarrow>
            FromBytes L txBytes opt = Inl (ErrBasicParseFailed ErrSlotBoundaryNotBranch))
       \<and> (seqIdx = 0xff \<and> stemIdx = 0xff
            \<and> BytesAtPath (TreeFromBytesReadOnly L txBytes) (Path TxTimestamp) = Some tsBin
            \<and> LogicalTimeFromBytes L tsBin = Inr ts \<and> lt_tick ts = 0
            \<and> BytesAtPath (TreeFromBytesReadOnly L txBytes) (Path TxTotalProducedAmount) = Some amountBin
            \<and> length amountBin = 8 \<longrightarrow>
            (\<exists>tx. transactionFromBytes L txBytes [BaseValidation L] = Inr tx
                  \<and> \<not> IsSequencerMilestone tx \<and> timestamp tx = ts))"
  using idx
  by (auto simp: FromBytes_def transactionFromBytes_def BaseValidation_def IsSequencerMilestone_def
           split: option.splits sum.splits)

theorem BaseValidation_flag_discipline_witness:
  "FromBytes ex_lib [0, 0, 0, 9, 4, 0xff, 1, 0, 0, 0, 0, 0, 0, 0, 5] []
     = Inl (ErrBasicParseFailed ErrWrongBranchFlag)
   \<and> FromBytes ex_lib [0, 0, 0, 9, 0, 2, 0xff, 0, 0, 0, 0, 0, 0, 0, 5] []
     = Inl (ErrBasicParseFailed ErrSlotBoundaryNotBranch)
   \<and> (\<exists>tx. transactionFromBytes ex_lib [0, 0, 0, 9, 0, 0xff, 0xff, 0, 0, 0, 0, 0, 0, 0, 5]
               [BaseValidation ex_lib] = Inr tx
           \<and> \<not> IsSequencerMilestone tx \<and> timestamp tx = \<lparr>lt_slot = 9, lt_tick = 0\<rparr>)"
  using BaseValidation_flag_discipline
          [where L = ex_lib and txBytes = "[0, 0, 0, 9, 4, 0xff, 1, 0, 0, 0, 0, 0, 0, 0, 5]"
             and seqIdx = "0xff" and stemIdx = 1 and opt = "[]"]
        BaseValidation_flag_discipline
          [where L = ex_lib and txBytes = "[0, 0, 0, 9, 0, 2, 0xff, 0, 0, 0, 0, 0, 0, 0, 5]"
             and seqIdx = 2 and stemIdx = "0xff" and opt = "[]"
             and tsBin = "[0, 0, 0, 9, 0]" and ts = "\<lparr>lt_slot = 9, lt_tick = 0\<rparr>"]
        BaseValidation_flag_discipline
          [where L = ex_lib and txBytes = "[0, 0, 0, 9, 0, 0xff, 0xff, 0, 0, 0, 0, 0, 0, 0, 5]"
             and seqIdx = "0xff" and stemIdx = "0xff" and opt = "[]"
             and tsBin = "[0, 0, 0, 9, 0]" and ts = "\<lparr>lt_slot = 9, lt_tick = 0\<rparr>"
             and amountBin = "[0, 0, 0, 0, 0, 0, 0, 5]"]
  by (simp add: ex_lib_simps Path_def)

subsection \<open>Double spends in a past cone\<close>

lemma checkConflictsFunc_iff:
  "checkConflictsFunc a consumerTx existing \<longleftrightarrow>
     (\<exists>e \<in> set existing. e \<noteq> consumerTx \<and> (e \<in> validPastVertices a \<or> e \<in> undefinedPastVertices a))"
  by (induction existing) auto


lemma ex_heap_3: "wrapper (ex_heap 3) = WVertex ex_consumer_vertex"
  by (simp add: ex_heap_def ex_consumer_vertex_def)

lemma ex_heap_self_3: "wrapper (ex_heap_self 3) = WVertex ex_consumer_vertex"
  by (simp add: ex_heap_self_def ex_heap_3)

lemma ex_input_oid:
  "MustInputAt (ledgerLib ex_env) (Tx ex_consumer_vertex) 0 = Some (NewOutputID (ex_txid 5) 0)"
  by (simp add: MustInputAt_def InputAt_def NumInputs_def ex_env_def ex_consumer_vertex_def
        ex_tx_def Path_def ex_lib_simps)

lemma ex_input_index:
  "MustOutputIndexOfTheInput (ledgerLib ex_env) (Tx ex_consumer_vertex) 0 = Some 0"
  by (simp add: MustOutputIndexOfTheInput_def ex_env_def ex_consumer_vertex_def
        ex_tx_def ex_lib_simps)

lemma ex_inputs: "Inputs ex_consumer_vertex = [Some 5]"
  by (simp add: ex_consumer_vertex_def)

lemma ex_attacher_simps:
  "validPastVertices ex_attacher = {4}" "undefinedPastVertices ex_attacher = {3}"
  "baselineBranch ex_attacher = Some 1" "isKnownVertex ex_attacher 3 = Some True"
  "rooted ex_attacher = (\<lambda>_. {})" "reason ex_attacher = None"
  by (simp_all add: ex_attacher_def newPastConeAttacher_def isKnownVertex_def)

lemma ex_heap_5:
  "txStatus (ex_heap 5) = Undefined" "consumers (ex_heap 5) 0 = [4]"
  "txStatus (ex_heap_self 5) = Undefined" "consumers (ex_heap_self 5) 0 = [3]"
  by (simp_all add: ex_heap_def ex_heap_self_def)

text \<open>
  Claim C1, as amended. Double-spend conflict rule: whenever a transaction other than
  the consumer being attached is registered as a consumer of the input output and is
  a member of the attacher's valid or undefined past vertices, the conflict-check
  closure reports a conflict, and \<^verbatim>\<open>attachInputID\<close>, having found the status of the
  input transaction not Bad, returns false with the double-spend error for that
  output, leaving the heap as it was.
\<close>

theorem attachInputID_double_spend:
  assumes cv: "wrapper (heap w consumerTx) = WVertex consumerVertex"
    and oid: "MustInputAt (ledgerLib E) (Tx consumerVertex) inputIdx = Some inputOid"
    and len: "unat inputIdx < length (Inputs consumerVertex)"
    and vin: "(case Inputs consumerVertex ! unat inputIdx of
                 Some x \<Rightarrow> (x, heap w)
               | None \<Rightarrow> AttachTxID E (oid_txid inputOid) (heap w)) = (vidInputTx, h1)"
    and notbad: "GetTxStatus h1 vidInputTx \<noteq> Bad"
    and known: "isKnownVertex a consumerTx = Some True"
    and bb: "baselineBranch a = Some bb"
    and e: "e \<in> set (consumers (h1 vidInputTx) (oid_index inputOid))"
           "e \<noteq> consumerTx"
           "e \<in> validPastVertices a \<union> undefinedPastVertices a"
  shows "checkConflictsFunc a consumerTx (consumers (h1 vidInputTx) (oid_index inputOid))
       \<and> attachInputID E a w consumerTx inputIdx
           = Some (False, setReason a (Some (ErrDoubleSpend inputOid consumerTx bb)), w\<lparr>heap := h1\<rparr>)"
proof -
  have c: "checkConflictsFunc a consumerTx (consumers (h1 vidInputTx) (oid_index inputOid))"
    using e by (auto simp: checkConflictsFunc_iff)
  then have ac: "AttachConsumer (h1 vidInputTx) (oid_index inputOid) consumerTx (checkConflictsFunc a consumerTx)
      = (False, h1 vidInputTx)"
    by (simp add: AttachConsumer_def)
  show ?thesis
    using c cv oid len vin notbad known bb ac
    by (simp add: attachInputID_def)
qed

theorem attachInputID_double_spend_witness:
  "4 \<in> set (consumers (ex_heap 5) 0) \<and> (4::nat) \<noteq> 3
   \<and> 4 \<in> validPastVertices ex_attacher \<union> undefinedPastVertices ex_attacher
   \<and> checkConflictsFunc ex_attacher 3 (consumers (ex_heap 5) 0)
   \<and> attachInputID ex_env ex_attacher (ex_world ex_heap) 3 0
       = Some (False,
               setReason ex_attacher (Some (ErrDoubleSpend (NewOutputID (ex_txid 5) 0) 3 1)),
               ex_world ex_heap)"
  using attachInputID_double_spend
          [where E = ex_env and a = ex_attacher and w = "ex_world ex_heap" and consumerTx = 3
             and inputIdx = 0 and consumerVertex = ex_consumer_vertex
             and inputOid = "NewOutputID (ex_txid 5) 0" and vidInputTx = 5 and ?h1.0 = ex_heap
             and bb = 1 and e = 4]
  by (simp add: ex_world_def ex_heap_3 ex_input_oid ex_inputs ex_attacher_simps ex_heap_5
        GetTxStatus_def NewOutputID_def)

text \<open>
  The claim C1 as stated fails: vertex 3, the consumer being attached, is registered as
  a consumer of output 0 of vertex 5 and is a member of the undefined past vertices,
  yet the closure reports no conflict and \<^verbatim>\<open>attachInputID\<close> returns true.
\<close>

theorem attachInputID_double_spend_counterexample:
  "3 \<in> set (consumers (ex_heap_self 5) 0)
   \<and> 3 \<in> validPastVertices ex_attacher \<union> undefinedPastVertices ex_attacher
   \<and> \<not> checkConflictsFunc ex_attacher 3 (consumers (ex_heap_self 5) 0)
   \<and> attachInputID ex_env ex_attacher (ex_world ex_heap_self) 3 0
       = Some (True, ex_attacher, ex_world ex_heap_self)"
proof -
  have upd1: "ex_heap_self(5 := ex_heap_self 5) = ex_heap_self" by simp
  have upd2: "ex_heap_self(3 := (ex_heap_self 3)\<lparr>wrapper := WVertex ex_consumer_vertex\<rparr>) = ex_heap_self"
    using ex_heap_self_3 by (metis fun_upd_triv wrapped_tx.surjective wrapped_tx.update_convs(4))
  have cons: "(consumers (ex_heap_self 5))(0 := [3]) = consumers (ex_heap_self 5)"
    by (simp add: ex_heap_self_def fun_eq_iff)
  have rec: "(ex_heap_self 5)\<lparr>consumers := consumers (ex_heap_self 5)\<rparr> = ex_heap_self 5"
    by simp
  have cvu: "ex_consumer_vertex\<lparr>Inputs := [Some 5]\<rparr> = ex_consumer_vertex"
    by (simp add: ex_consumer_vertex_def)
  have notseq: "\<not> vid_IsSequencerMilestone ex_heap_self 5"
    by (simp add: vid_IsSequencerMilestone_def txid_IsSequencerMilestone_def ex_heap_self_def
          ex_heap_def ex_txid_def)
  show ?thesis
    by (simp add: attachInputID_def Let_def AttachConsumer_def ex_world_def ex_heap_self_3
          ex_input_oid ex_inputs ex_attacher_simps ex_heap_5 GetTxStatus_def NewOutputID_def
          cons rec upd1 upd2 cvu notseq)
qed



















subsection \<open>The tip pool\<close>

text \<open>
  Claim C6, as amended. Tip-pool latest-milestone update: for a milestone with
  sequencer id \<open>s\<close> delivered to the sequencer listener, the stored entry for \<open>s\<close> is
  replaced by the milestone if and only if no entry for \<open>s\<close> exists yet or the
  timestamp of the milestone is not before the timestamp of the stored entry (an equal
  timestamp replaces it too); otherwise the pool is left unchanged.
\<close>

theorem sequencerListener_latest:
  assumes "SequencerIDIfAvailable h vid = Some (Some s)"
  shows "\<exists>tp'. sequencerListener h tp vid = Some tp'
      \<and> (latestMilestones tp s = None \<longrightarrow>
            tp' = tp\<lparr>latestMilestones := (latestMilestones tp)(s := Some vid)\<rparr>)
      \<and> (\<forall>old. latestMilestones tp s = Some old \<longrightarrow>
            (\<not> Before (vid_Timestamp h vid) (vid_Timestamp h old) \<longrightarrow>
               tp' = tp\<lparr>latestMilestones := (latestMilestones tp)(s := Some vid)\<rparr>)
          \<and> (Before (vid_Timestamp h vid) (vid_Timestamp h old) \<longrightarrow> tp' = tp)
          \<and> (old \<noteq> vid \<longrightarrow>
               (latestMilestones tp' s = Some vid
                  \<longleftrightarrow> \<not> Before (vid_Timestamp h vid) (vid_Timestamp h old))))"
  using assms by (auto simp: sequencerListener_def split: option.splits)

lemma ex_seq_id:
  "SequencerIDIfAvailable ex_heap 6 = Some (Some [6])"
  "SequencerIDIfAvailable ex_heap 7 = Some (Some [6])"
  by (simp_all add: SequencerIDIfAvailable_def ex_heap_def)

lemma ex_seq_time:
  "vid_Timestamp ex_heap 6 = \<lparr>lt_slot = 100, lt_tick = 10\<rparr>"
  "vid_Timestamp ex_heap 7 = \<lparr>lt_slot = 100, lt_tick = 10\<rparr>"
  "vid_Timestamp ex_heap 1 = \<lparr>lt_slot = 100, lt_tick = 0\<rparr>"
  by (simp_all add: vid_Timestamp_def ex_heap_def ex_txid_def)

theorem sequencerListener_latest_witness:
  "SequencerIDIfAvailable ex_heap 7 = Some (Some [6])
   \<and> latestMilestones (ex_pool\<lparr>latestMilestones := (\<lambda>_. None)([6] := Some 6)\<rparr>) [6] = Some 6
   \<and> \<not> Before (vid_Timestamp ex_heap 7) (vid_Timestamp ex_heap 6)
   \<and> sequencerListener ex_heap (ex_pool\<lparr>latestMilestones := (\<lambda>_. None)([6] := Some 6)\<rparr>) 7
       = Some (ex_pool\<lparr>latestMilestones := (\<lambda>_. None)([6] := Some 7)\<rparr>)
   \<and> sequencerListener ex_heap ex_pool 7
       = Some (ex_pool\<lparr>latestMilestones := (\<lambda>_. None)([6] := Some 7)\<rparr>)"
  using sequencerListener_latest [OF ex_seq_id(2), of "ex_pool\<lparr>latestMilestones := (\<lambda>_. None)([6] := Some 6)\<rparr>"]
        sequencerListener_latest [OF ex_seq_id(2), of ex_pool]
  by (auto simp: ex_seq_id ex_seq_time Before_def ex_pool_def)

text \<open>
  The claim C6 as stated fails: milestone 7 carries the same timestamp as the stored
  milestone 6 of the same sequencer, so it is not newer, yet the listener replaces the
  stored entry by it.
\<close>

theorem sequencerListener_latest_counterexample:
  "latestMilestones (ex_pool\<lparr>latestMilestones := (\<lambda>_. None)([6] := Some 6)\<rparr>) [6] = Some 6
   \<and> \<not> After (vid_Timestamp ex_heap 7) (vid_Timestamp ex_heap 6)
   \<and> map_option (\<lambda>tp'. latestMilestones tp' [6])
        (sequencerListener ex_heap (ex_pool\<lparr>latestMilestones := (\<lambda>_. None)([6] := Some 6)\<rparr>) 7)
       = Some (Some 7)"
  by (simp add: sequencerListener_def ex_seq_id ex_seq_time Before_def After_def ex_pool_def)

end
